theory Spec2Isabelle
  imports Main "HOL-Library.AList" "HOL-Library.Sublist"
begin

section \<open>Values, messages and exceptions\<close>

text \<open>
  The values that \<^verbatim>\<open>json.load\<close> produces and \<^verbatim>\<open>json.dump\<close> accepts: the Python
  objects \<^verbatim>\<open>None\<close>, \<^verbatim>\<open>bool\<close>, \<^verbatim>\<open>int\<close>, \<^verbatim>\<open>str\<close>, \<^verbatim>\<open>list\<close> and \<^verbatim>\<open>dict\<close> with string
  keys. A \<^verbatim>\<open>dict\<close> is an association list in insertion order; \<^verbatim>\<open>dict.get\<close> is
  \<open>map_of\<close> and an item assignment is \<open>AList.update\<close>, which keeps the position of a
  key that is already there.
\<close>

datatype json =
    JNull
  | JBool bool
  | JInt int
  | JStr string
  | JList "json list"
  | JObj "(string \<times> json) list"

text \<open>Python's truth value of an object, as \<^verbatim>\<open>not item\<close> tests it.\<close>

fun truthy :: "json \<Rightarrow> bool" where
  "truthy JNull = False"
| "truthy (JBool b) = b"
| "truthy (JInt n) = (n \<noteq> 0)"
| "truthy (JStr s) = (s \<noteq> [])"
| "truthy (JList xs) = (xs \<noteq> [])"
| "truthy (JObj kvs) = (kvs \<noteq> [])"

fun type_name :: "json \<Rightarrow> string" where
  "type_name JNull = ''NoneType''"
| "type_name (JBool b) = ''bool''"
| "type_name (JInt n) = ''int''"
| "type_name (JStr s) = ''str''"
| "type_name (JList xs) = ''list''"
| "type_name (JObj kvs) = ''dict''"

text \<open>
  The exceptions the modelled code can meet. The first four are subclasses of
  \<^verbatim>\<open>OSError\<close> and carry the path; \<open>str_exn\<close> is the text of \<^verbatim>\<open>str(e)\<close>.
\<close>

datatype exn =
    FileNotFoundError string
  | IsADirectoryError string
  | PermissionError string
  | FileExistsError string
  | JSONDecodeError
  | AttributeError string string
  | IndexError string
  | UnboundLocalError string

fun str_exn :: "exn \<Rightarrow> string" where
  "str_exn (FileNotFoundError p) = ''[Errno 2] No such file or directory: '' @ [CHR 0x27] @ p @ [CHR 0x27]"
| "str_exn (IsADirectoryError p) = ''[Errno 21] Is a directory: '' @ [CHR 0x27] @ p @ [CHR 0x27]"
| "str_exn (PermissionError p) = ''[Errno 13] Permission denied: '' @ [CHR 0x27] @ p @ [CHR 0x27]"
| "str_exn (FileExistsError p) = ''[Errno 17] File exists: '' @ [CHR 0x27] @ p @ [CHR 0x27]"
| "str_exn JSONDecodeError = ''Expecting value: line 1 column 1 (char 0)''"
| "str_exn (AttributeError t a) =
     [CHR 0x27] @ t @ [CHR 0x27] @ '' object has no attribute '' @ [CHR 0x27] @ a @ [CHR 0x27]"
| "str_exn (IndexError m) = m"
| "str_exn (UnboundLocalError v) =
     ''cannot access local variable '' @ [CHR 0x27] @ v @ [CHR 0x27]
       @ '' where it is not associated with a value''"

text \<open>
  A message is the pair (category, detail) that the code hands to \<^verbatim>\<open>messagebox\<close>; a
  result is the pair (success flag, message or \<^verbatim>\<open>None\<close>) that the methods of
  \<^verbatim>\<open>Project\<close> return.
\<close>

type_synonym message = "string \<times> string"
type_synonym result = "bool \<times> message option"

section \<open>The file system\<close>

text \<open>
  The part of the operating system the code talks to. A node is a directory or a file;
  a file holds either a JSON document (given by its value) or text that is not JSON.
  Nodes are keyed by the path string as the code passes it. \<open>denied\<close> lists the paths
  at which the operating system refuses to create, write, read or remove (permissions,
  a full disk): it is how a failing \<^verbatim>\<open>open\<close> or \<^verbatim>\<open>os.makedirs\<close> enters the model.
\<close>

datatype file_content = JsonText json | NotJson string

datatype node = Dir | File file_content

record filesystem =
  nodes :: "(string \<times> node) list"
  denied :: "string list"

definition lookup :: "filesystem \<Rightarrow> string \<Rightarrow> node option" where
  "lookup fs p = map_of (nodes fs) p"

definition os_path_exists :: "filesystem \<Rightarrow> string \<Rightarrow> bool" where
  "os_path_exists fs p = (lookup fs p \<noteq> None)"

definition os_path_isfile :: "filesystem \<Rightarrow> string \<Rightarrow> bool" where
  "os_path_isfile fs p = (case lookup fs p of Some (File c) \<Rightarrow> True | _ \<Rightarrow> False)"

definition os_path_join :: "string \<Rightarrow> string \<Rightarrow> string" where
  "os_path_join a b =
     (if b \<noteq> [] \<and> hd b = CHR ''/'' then b
      else if a = [] \<or> last a = CHR ''/'' then a @ b
      else a @ ''/'' @ b)"

definition os_path_basename :: "string \<Rightarrow> string" where
  "os_path_basename p = rev (takeWhile (\<lambda>c. c \<noteq> CHR ''/'') (rev p))"

text \<open>\<^verbatim>\<open>os.makedirs(path, exist_ok=True)\<close>: a directory that is there is left alone.\<close>

definition os_makedirs :: "string \<Rightarrow> filesystem \<Rightarrow> exn + filesystem" where
  "os_makedirs p fs =
     (case lookup fs p of
        Some Dir \<Rightarrow> Inr fs
      | Some (File c) \<Rightarrow> Inl (FileExistsError p)
      | None \<Rightarrow>
          if p \<in> set (denied fs) then Inl (PermissionError p)
          else Inr (fs\<lparr>nodes := AList.update p Dir (nodes fs)\<rparr>))"

text \<open>\<^verbatim>\<open>open(file, 'r')\<close> followed by \<^verbatim>\<open>json.load\<close>.\<close>

definition read_json :: "string \<Rightarrow> filesystem \<Rightarrow> exn + json" where
  "read_json p fs =
     (case lookup fs p of
        None \<Rightarrow> Inl (FileNotFoundError p)
      | Some Dir \<Rightarrow> Inl (IsADirectoryError p)
      | Some (File c) \<Rightarrow>
          if p \<in> set (denied fs) then Inl (PermissionError p)
          else (case c of JsonText v \<Rightarrow> Inr v | NotJson t \<Rightarrow> Inl JSONDecodeError))"

text \<open>\<^verbatim>\<open>open(file, 'w', encoding='utf-8')\<close> followed by \<^verbatim>\<open>json.dump\<close>.\<close>

definition write_json :: "string \<Rightarrow> json \<Rightarrow> filesystem \<Rightarrow> exn + filesystem" where
  "write_json p v fs =
     (if p \<in> set (denied fs) then Inl (PermissionError p)
      else (case lookup fs p of
              Some Dir \<Rightarrow> Inl (IsADirectoryError p)
            | _ \<Rightarrow> Inr (fs\<lparr>nodes := AList.update p (File (JsonText v)) (nodes fs)\<rparr>)))"

definition os_remove :: "string \<Rightarrow> filesystem \<Rightarrow> exn + filesystem" where
  "os_remove p fs =
     (if p \<in> set (denied fs) then Inl (PermissionError p)
      else (case lookup fs p of
              None \<Rightarrow> Inl (FileNotFoundError p)
            | Some Dir \<Rightarrow> Inl (IsADirectoryError p)
            | Some (File c) \<Rightarrow> Inr (fs\<lparr>nodes := AList.delete p (nodes fs)\<rparr>)))"

section \<open>Project\<close>

text \<open>
  \<^verbatim>\<open>Project.__init__\<close> stores the directory, the metadata dictionary, the bundle list and
  two dictionaries of paths, \<^verbatim>\<open>files\<close> and \<^verbatim>\<open>subfolders\<close>. The two dictionaries are
  computed from the directory once and never assigned again, so they are functions of
  the record here. \<^verbatim>\<open>load_bundles\<close> stores whatever value sits under the key, so the
  field \<open>bundles\<close> is a JSON value, a list when the file is well formed.
\<close>

record Project =
  directory :: string
  project_metadata :: json
  bundles :: json

definition Project_init :: "string \<Rightarrow> Project" where
  "Project_init d =
     \<lparr>directory = d,
      project_metadata = JObj [(''title'', JNull), (''description'', JNull)],
      bundles = JList []\<rparr>"

definition files_bundles :: "Project \<Rightarrow> string" where
  "files_bundles p = os_path_join (directory p) ''bundles.json''"

definition files_project_metadata :: "Project \<Rightarrow> string" where
  "files_project_metadata p = os_path_join (directory p) ''project_metadata.json''"

definition files_documents_metadata :: "Project \<Rightarrow> string" where
  "files_documents_metadata p = os_path_join (directory p) ''documents_metadata.json''"

definition subfolders :: "Project \<Rightarrow> string list" where
  "subfolders p =
     [os_path_join (directory p) ''.cache'', os_path_join (directory p) ''.capture'']"

definition is_copista_project :: "filesystem \<Rightarrow> string \<Rightarrow> bool" where
  "is_copista_project fs d =
     (if os_path_isfile fs (os_path_join d ''bundles.json'') then True else False)"

text \<open>
  \<^verbatim>\<open>load_from_json\<close>. Two of its three messages are plain strings, not f-strings, so
  the braces reach the user as they are written. The third component of a failure is
  \<^verbatim>\<open>None\<close>, which is \<open>JNull\<close> here.
\<close>

definition dict_get :: "json \<Rightarrow> string \<Rightarrow> json \<Rightarrow> exn + json" where
  "dict_get data k dflt =
     (case data of
        JObj kvs \<Rightarrow> (case map_of kvs k of Some v \<Rightarrow> Inr v | None \<Rightarrow> Inr dflt)
      | _ \<Rightarrow> Inl (AttributeError (type_name data) ''get''))"

definition load_from_json_handler :: "string \<Rightarrow> exn \<Rightarrow> message" where
  "load_from_json_handler file e =
     (case e of
        FileNotFoundError q \<Rightarrow>
          (''Error'', ''No existe '' @ os_path_basename file @ '' en el proyecto'')
      | JSONDecodeError \<Rightarrow> (''Error'', ''Error al leer {filename}'')
      | _ \<Rightarrow> (''Error'', ''Error inesperado: '' @ str_exn e))"

definition load_from_json ::
  "string \<Rightarrow> string \<Rightarrow> filesystem \<Rightarrow> bool \<times> message option \<times> json" where
  "load_from_json file item_name fs =
     (case read_json file fs of
        Inl e \<Rightarrow> (False, Some (load_from_json_handler file e), JNull)
      | Inr data \<Rightarrow>
          (case dict_get data item_name (JList []) of
             Inl e \<Rightarrow> (False, Some (load_from_json_handler file e), JNull)
           | Inr item \<Rightarrow>
               (True,
                if \<not> truthy item
                then Some (''Advertencia'', ''No se encontro {item_name} en el archivo JSON'')
                else None,
                item)))"

definition save_to_json :: "string \<Rightarrow> json \<Rightarrow> filesystem \<Rightarrow> result \<times> filesystem" where
  "save_to_json file data fs =
     (case write_json file data fs of
        Inl e \<Rightarrow>
          ((False, Some (''Error'', ''Error actualizando '' @ file @ '': '' @ str_exn e)), fs)
      | Inr fs' \<Rightarrow> ((True, None), fs'))"

definition load_bundles :: "Project \<Rightarrow> filesystem \<Rightarrow> result \<times> Project" where
  "load_bundles p fs =
     (case load_from_json (files_bundles p) ''bundles'' fs of
        (res, message, item) \<Rightarrow>
          if \<not> res then ((False, message), p)
          else ((True, None), p\<lparr>bundles := item\<rparr>))"

definition save_bundles :: "Project \<Rightarrow> filesystem \<Rightarrow> result \<times> filesystem" where
  "save_bundles p fs =
     (case save_to_json (files_bundles p) (JObj [(''bundles'', bundles p)]) fs of
        ((res, message), fs') \<Rightarrow>
          if \<not> res then ((False, message), fs') else ((True, message), fs'))"

definition load_project_metadata :: "Project \<Rightarrow> filesystem \<Rightarrow> result \<times> Project" where
  "load_project_metadata p fs =
     (case load_from_json (files_project_metadata p) ''project_metadata'' fs of
        (res, message, item) \<Rightarrow>
          if \<not> res then ((False, message), p)
          else ((True, None), p\<lparr>project_metadata := item\<rparr>))"

definition save_project_metadata :: "Project \<Rightarrow> filesystem \<Rightarrow> result \<times> filesystem" where
  "save_project_metadata p fs =
     (case save_to_json (files_project_metadata p)
             (JObj [(''project_metadata'', project_metadata p)]) fs of
        ((res, message), fs') \<Rightarrow>
          if \<not> res then ((False, message), fs') else ((True, message), fs'))"

text \<open>
  \<^verbatim>\<open>ensure_subfolders\<close>: the loop over the two subfolders, leaving at the first
  \<^verbatim>\<open>OSError\<close>. The line it prints is not part of the state.
\<close>

fun ensure_subfolders_loop :: "string list \<Rightarrow> filesystem \<Rightarrow> result \<times> filesystem" where
  "ensure_subfolders_loop [] fs = ((True, None), fs)"
| "ensure_subfolders_loop (subfolder # rest) fs =
     (case os_makedirs subfolder fs of
        Inl e \<Rightarrow> ((False, Some (''Error'', ''Error al crear '' @ subfolder @ '': '' @ str_exn e)), fs)
      | Inr fs' \<Rightarrow> ensure_subfolders_loop rest fs')"

definition ensure_subfolders :: "Project \<Rightarrow> filesystem \<Rightarrow> result \<times> filesystem" where
  "ensure_subfolders p fs = ensure_subfolders_loop (subfolders p) fs"

section \<open>ProjectManager\<close>

text \<open>
  What a method of the manager hands back: \<^verbatim>\<open>create_project\<close> returns either the bare
  object \<^verbatim>\<open>False\<close> or a pair (flag, message), and \<^verbatim>\<open>load_project\<close> can leave through
  an exception that nothing catches.
\<close>

datatype retval = Bare bool | Pair bool "message option"

datatype 'a outcome = Returns 'a | Raises exn

record ProjectManager =
  base_projects_folder :: string
  copista_folder :: string
  current_project :: "Project option"

text \<open>
  Modelled from the spec: the identifier-slugification function (\<^verbatim>\<open>slugify\<close> of the
  package python-slugify, imported by \<^verbatim>\<open>project_manager.py\<close>) "mapping arbitrary title
  text to a filesystem-safe lowercase token". \<^verbatim>\<open>create_project\<close> below takes the
  function as a parameter; \<open>slugify_ascii\<close> is what the package computes on titles of
  ASCII letters, digits, blanks and punctuation other than quotes: letters in lower
  case, every run of other characters a single dash, no dash at either end.
\<close>

definition is_alnum :: "char \<Rightarrow> bool" where
  "is_alnum c =
     (let n = (of_char c :: nat)
      in (48 \<le> n \<and> n \<le> 57) \<or> (65 \<le> n \<and> n \<le> 90) \<or> (97 \<le> n \<and> n \<le> 122))"

definition lower :: "char \<Rightarrow> char" where
  "lower c =
     (let n = (of_char c :: nat) in if 65 \<le> n \<and> n \<le> 90 then char_of (n + 32) else c)"

fun squeeze_dashes :: "string \<Rightarrow> string" where
  "squeeze_dashes (a # b # r) =
     (if a = CHR ''-'' \<and> b = CHR ''-'' then squeeze_dashes (b # r)
      else a # squeeze_dashes (b # r))"
| "squeeze_dashes r = r"

definition strip_dashes :: "string \<Rightarrow> string" where
  "strip_dashes s =
     rev (dropWhile (\<lambda>c. c = CHR ''-'') (rev (dropWhile (\<lambda>c. c = CHR ''-'') s)))"

definition slugify_ascii :: "string \<Rightarrow> string" where
  "slugify_ascii t =
     strip_dashes (squeeze_dashes (map (\<lambda>c. if is_alnum c then lower c else CHR ''-'') t))"

text \<open>
  The format \<^verbatim>\<open>{counter:03d}\<close>: the decimal digits of the counter, filled with zeros on
  the left up to three characters.
\<close>

definition digit_char :: "nat \<Rightarrow> char" where
  "digit_char d = ''0123456789'' ! (d mod 10)"

fun decimal :: "nat \<Rightarrow> string" where
  "decimal n = (if n < 10 then [digit_char n] else decimal (n div 10) @ [digit_char n])"

declare decimal.simps [simp del]

definition format_03d :: "nat \<Rightarrow> string" where
  "format_03d n = replicate (3 - length (decimal n)) (CHR ''0'') @ decimal n"

definition alt_slug :: "string \<Rightarrow> nat \<Rightarrow> string" where
  "alt_slug slug counter = slug @ ''_'' @ format_03d counter"

text \<open>
  The loop of \<^verbatim>\<open>create_project\<close> that looks for a name nobody has: as long as
  \<^verbatim>\<open>new_directory\<close> exists, the next candidate is the slug with the counter appended.
\<close>

function probe_directory ::
  "filesystem \<Rightarrow> string \<Rightarrow> string \<Rightarrow> nat \<Rightarrow> string \<Rightarrow> string" where
  "probe_directory fs parent slug counter new_directory =
     (if os_path_exists fs new_directory
      then probe_directory fs parent slug (counter + 1)
             (os_path_join parent (alt_slug slug counter))
      else new_directory)"
  by pat_completeness auto

text \<open>
  \<^verbatim>\<open>d[k] = v\<close> on a dictionary. Its one caller applies it to the dictionary that
  \<^verbatim>\<open>Project.__init__\<close> has just built.
\<close>

fun dict_setitem :: "json \<Rightarrow> string \<Rightarrow> json \<Rightarrow> json" where
  "dict_setitem (JObj kvs) k v = JObj (AList.update k v kvs)"
| "dict_setitem d k v = d"

text \<open>
  Line 136, \<^verbatim>\<open>parent_directory if parent_directory else self.config['base_projects_folder']\<close>:
  the configured folder stands in for \<^verbatim>\<open>None\<close> and for the empty string.
\<close>

definition parent_for :: "string option \<Rightarrow> 'a ProjectManager_scheme \<Rightarrow> string" where
  "parent_for parent_directory mgr =
     (case parent_directory of
        None \<Rightarrow> base_projects_folder mgr
      | Some d \<Rightarrow> if d \<noteq> [] then d else base_projects_folder mgr)"

text \<open>
  \<^verbatim>\<open>create_project(title=None, parent_directory=None)\<close>. Both arguments are a string or
  \<^verbatim>\<open>None\<close>; \<^verbatim>\<open>not title\<close> holds of \<^verbatim>\<open>None\<close> and of the empty string.
\<close>

definition create_project ::
  "(string \<Rightarrow> string) \<Rightarrow> string option \<Rightarrow> string option \<Rightarrow> 'a ProjectManager_scheme \<Rightarrow> filesystem
     \<Rightarrow> retval \<times> 'a ProjectManager_scheme \<times> filesystem" where
  "create_project slugify title parent_directory mgr fs =
     (case title of
        None \<Rightarrow> (Bare False, mgr, fs)
      | Some t \<Rightarrow>
          if t = [] then (Bare False, mgr, fs)
          else
            let slug = slugify t;
                parent = parent_for parent_directory mgr;
                new_directory = probe_directory fs parent slug 1 (os_path_join parent slug);
                new_project = (Project_init new_directory)
                  \<lparr>project_metadata :=
                     dict_setitem (project_metadata (Project_init new_directory)) ''title'' (JStr t)\<rparr>
            in (case os_makedirs (directory new_project) fs of
                  Inl e \<Rightarrow>
                    (Pair False
                       (Some (''Error'',
                          ''Error al crear '' @ directory new_project @ '': '' @ str_exn e)),
                     mgr, fs)
                | Inr fs1 \<Rightarrow>
                    (case ensure_subfolders new_project fs1 of
                       ((res, message), fs2) \<Rightarrow>
                         if \<not> res then (Pair False message, mgr, fs2)
                         else
                           (case save_bundles new_project fs2 of
                              ((res, message), fs3) \<Rightarrow>
                                if \<not> res then (Pair False message, mgr, fs3)
                                else
                                  (case save_project_metadata new_project fs3 of
                                     ((res, message), fs4) \<Rightarrow>
                                       if \<not> res then (Pair False message, mgr, fs4)
                                       else
                                         (Pair True None,
                                          mgr\<lparr>current_project := Some new_project\<rparr>,
                                          fs4))))))"

text \<open>
  The project that \<^verbatim>\<open>create_project\<close> builds for a title that is not empty (lines 135
  to 147: slug, parent, probe, \<^verbatim>\<open>Project(new_directory)\<close> and the title), under a name
  of its own so that statements can speak of it.
\<close>

definition new_project_for ::
  "(string \<Rightarrow> string) \<Rightarrow> string \<Rightarrow> string option \<Rightarrow> 'a ProjectManager_scheme \<Rightarrow> filesystem \<Rightarrow> Project" where
  "new_project_for slugify t parent_directory mgr fs =
     (let slug = slugify t;
          parent = parent_for parent_directory mgr;
          new_directory = probe_directory fs parent slug 1 (os_path_join parent slug)
      in (Project_init new_directory)
           \<lparr>project_metadata :=
              dict_setitem (project_metadata (Project_init new_directory)) ''title'' (JStr t)\<rparr>)"

text \<open>
  Reading a local variable. \<^verbatim>\<open>load_project\<close> assigns \<^verbatim>\<open>project\<close> further down, which
  makes the name local to the whole body: a read before the assignment finds no value
  and raises \<^verbatim>\<open>UnboundLocalError\<close>.
\<close>

definition read_local :: "string \<Rightarrow> 'a option \<Rightarrow> exn + 'a" where
  "read_local name v = (case v of None \<Rightarrow> Inl (UnboundLocalError name) | Some x \<Rightarrow> Inr x)"

text \<open>
  \<^verbatim>\<open>load_project\<close>. In the first branch the f-string reads \<^verbatim>\<open>project.directory\<close> while
  \<^verbatim>\<open>project\<close> has no value yet. After \<^verbatim>\<open>ensure_subfolders\<close> the code binds the name
  \<^verbatim>\<open>message_update\<close> and returns \<^verbatim>\<open>message\<close>, which is still the one of \<^verbatim>\<open>load_bundles\<close>.
\<close>

definition load_project ::
  "string \<Rightarrow> 'a ProjectManager_scheme \<Rightarrow> filesystem
     \<Rightarrow> retval outcome \<times> 'a ProjectManager_scheme \<times> filesystem" where
  "load_project dir mgr fs =
     (if \<not> os_path_exists fs dir then
        (case read_local ''project'' (None :: Project option) of
           Inl e \<Rightarrow> (Raises e, mgr, fs)
         | Inr project \<Rightarrow>
             (Returns (Pair False
                (Some (''Error'', ''No existe el directorio del proyecto '' @ directory project))),
              mgr, fs))
      else
        let project = Project_init dir
        in (case load_bundles project fs of
              ((res, message), project1) \<Rightarrow>
                if \<not> res then (Returns (Pair False message), mgr, fs)
                else
                  (case ensure_subfolders project1 fs of
                     ((res, message_update), fs1) \<Rightarrow>
                       if \<not> res then (Returns (Pair False message), mgr, fs1)
                       else
                         (case load_project_metadata project1 fs1 of
                            ((res, message), project2) \<Rightarrow>
                              if \<not> res then (Returns (Pair False message), mgr, fs1)
                              else
                                (Returns (Pair True message),
                                 mgr\<lparr>current_project := Some project2\<rparr>,
                                 fs1)))))"

text \<open>
  \<^verbatim>\<open>_cleanup_copied_files\<close>: every exception inside the loop body is caught and only
  printed, also the \<^verbatim>\<open>AttributeError\<close> of a manager without a current project.
\<close>

fun cleanup_copied_files ::
  "'a ProjectManager_scheme \<Rightarrow> string list \<Rightarrow> filesystem \<Rightarrow> filesystem" where
  "cleanup_copied_files mgr [] fs = fs"
| "cleanup_copied_files mgr (filename # rest) fs =
     (case current_project mgr of
        None \<Rightarrow> cleanup_copied_files mgr rest fs
      | Some p \<Rightarrow>
          let file_path = os_path_join (directory p) filename
          in if os_path_exists fs file_path
             then (case os_remove file_path fs of
                     Inl e \<Rightarrow> cleanup_copied_files mgr rest fs
                   | Inr fs' \<Rightarrow> cleanup_copied_files mgr rest fs')
             else cleanup_copied_files mgr rest fs)"

section \<open>Adding a bundle in the digitization dialog\<close>

text \<open>
  \<^verbatim>\<open>list.insert(i, x)\<close> and \<^verbatim>\<open>list.pop(i)\<close>. An insert position is clipped to the ends
  of the list; a pop position outside the list raises \<^verbatim>\<open>IndexError\<close>. A negative
  position counts from the end.
\<close>

definition list_insert :: "'a list \<Rightarrow> int \<Rightarrow> 'a \<Rightarrow> 'a list" where
  "list_insert xs i x =
     (let n = int (length xs);
          j = (if i < 0 then max 0 (i + n) else min i n)
      in take (nat j) xs @ [x] @ drop (nat j) xs)"

definition list_pop :: "'a list \<Rightarrow> int \<Rightarrow> exn + 'a list" where
  "list_pop xs i =
     (let n = int (length xs);
          j = (if i < 0 then i + n else i)
      in if xs = [] then Inl (IndexError ''pop from empty list'')
         else if 0 \<le> j \<and> j < n then Inr (take (nat j) xs @ drop (nat j + 1) xs)
         else Inl (IndexError ''pop index out of range''))"

text \<open>
  \<^verbatim>\<open>DigitizationDialog\<close> is a subclass of \<^verbatim>\<open>ProjectManager\<close>; of its own attributes the
  bundle position is the one that matters here. The widgets and message boxes are not
  part of the state.
\<close>

record DigitizationDialog = ProjectManager +
  current_bundle_index :: int

text \<open>
  \<^verbatim>\<open>add_bundle_from_images\<close> from the point where the images have been copied (the
  creation of \<^verbatim>\<open>new_bundle\<close>, lines 390 to 416), given the names of the copies. The
  statements are inside \<^verbatim>\<open>try\<close>; the handler \<^verbatim>\<open>except Exception\<close> shows a message box
  and returns \<^verbatim>\<open>False\<close>, keeping whatever the statements before the exception did.
  Exceptions here: \<^verbatim>\<open>AttributeError\<close> when there is no current project or its
  \<^verbatim>\<open>bundles\<close> is not a list, \<^verbatim>\<open>IndexError\<close> from \<^verbatim>\<open>pop\<close>.
\<close>

definition add_bundle_from_images ::
  "string list \<Rightarrow> DigitizationDialog \<Rightarrow> filesystem \<Rightarrow> bool \<times> DigitizationDialog \<times> filesystem" where
  "add_bundle_from_images copied_filenames dlg fs =
     (let new_bundle = JObj [(''type'', JStr ''generic''),
                             (''images'', JList (map JStr copied_filenames))];
          insert_position = current_bundle_index dlg + 1
      in (case current_project dlg of
            None \<Rightarrow> (False, dlg, fs)
          | Some p \<Rightarrow>
              (case bundles p of
                 JList bs \<Rightarrow>
                   let p1 = p\<lparr>bundles := JList (list_insert bs insert_position new_bundle)\<rparr>;
                       dlg1 = dlg\<lparr>current_project := Some p1\<rparr>
                   in (case save_bundles p1 fs of
                         ((res, message), fs1) \<Rightarrow>
                           if res then
                             (True, dlg1\<lparr>current_bundle_index := insert_position\<rparr>, fs1)
                           else
                             (case list_pop (list_insert bs insert_position new_bundle)
                                     insert_position of
                                Inl e \<Rightarrow> (False, dlg1, fs1)
                              | Inr bs' \<Rightarrow>
                                  let dlg2 = dlg\<lparr>current_project := Some (p1\<lparr>bundles := JList bs'\<rparr>)\<rparr>
                                  in (False, dlg2, cleanup_copied_files dlg2 copied_filenames fs1)))
               | _ \<Rightarrow> (False, dlg, fs))))"

section \<open>Reading decimal digits back\<close>

text \<open>The value of a string of decimal digits, used to tell two formatted counters apart.\<close>

definition digit_val :: "char \<Rightarrow> nat" where
  "digit_val c = of_char c - 48"

definition decimal_val :: "string \<Rightarrow> nat" where
  "decimal_val s = foldl (\<lambda>a c. 10 * a + digit_val c) 0 s"

section \<open>The probe terminates\<close>

text \<open>
  Two counters never give the same candidate, and the file system has finitely many
  nodes, so the loop meets a free name.
\<close>

lemma digit_val_digit_char: "digit_val (digit_char d) = d mod 10"
proof -
  have "d mod 10 < 10" by simp
  then have "d mod 10 = 0 \<or> d mod 10 = 1 \<or> d mod 10 = 2 \<or> d mod 10 = 3 \<or> d mod 10 = 4
      \<or> d mod 10 = 5 \<or> d mod 10 = 6 \<or> d mod 10 = 7 \<or> d mod 10 = 8 \<or> d mod 10 = 9"
    by arith
  then show ?thesis
    unfolding digit_char_def digit_val_def by (elim disjE) simp_all
qed

lemma decimal_val_snoc: "decimal_val (s @ [c]) = 10 * decimal_val s + digit_val c"
  by (simp add: decimal_val_def)

lemma decimal_val_decimal: "decimal_val (decimal n) = n"
proof (induction n rule: decimal.induct)
  case (1 n)
  show ?case
  proof (cases "n < 10")
    case True
    then show ?thesis
      by (subst decimal.simps) (simp add: decimal_val_def digit_val_digit_char)
  next
    case False
    with 1 have "decimal_val (decimal (n div 10)) = n div 10" by simp
    with False show ?thesis
      by (subst decimal.simps) (simp add: decimal_val_snoc digit_val_digit_char)
  qed
qed

lemma decimal_val_zeros: "decimal_val (replicate k (CHR ''0'') @ s) = decimal_val s"
  by (induction k) (simp_all add: decimal_val_def digit_val_def)

lemma decimal_val_format_03d: "decimal_val (format_03d n) = n"
  by (simp add: format_03d_def decimal_val_zeros decimal_val_decimal)

lemma format_03d_inj: "format_03d m = format_03d n \<Longrightarrow> m = n"
proof -
  assume "format_03d m = format_03d n"
  then have "decimal_val (format_03d m) = decimal_val (format_03d n)" by (rule arg_cong)
  then show "m = n" by (simp only: decimal_val_format_03d)
qed

lemma alt_slug_inj: "alt_slug slug m = alt_slug slug n \<Longrightarrow> m = n"
  by (auto simp: alt_slug_def dest: format_03d_inj)

lemma alt_slug_hd: "alt_slug slug m \<noteq> [] \<and> hd (alt_slug slug m) = hd (alt_slug slug n)"
  by (cases slug) (simp_all add: alt_slug_def)

lemma join_alt_slug_inj:
  "os_path_join parent (alt_slug slug m) = os_path_join parent (alt_slug slug n) \<Longrightarrow> m = n"
proof -
  assume eq: "os_path_join parent (alt_slug slug m) = os_path_join parent (alt_slug slug n)"
  have m: "alt_slug slug m \<noteq> []" and n: "alt_slug slug n \<noteq> []"
    and hd: "hd (alt_slug slug m) = hd (alt_slug slug n)"
    using alt_slug_hd [of slug m n] alt_slug_hd [of slug n m] by simp_all
  have "alt_slug slug m = alt_slug slug n"
  proof (cases "hd (alt_slug slug n) = CHR ''/''")
    case True
    with eq m n hd show ?thesis by (simp add: os_path_join_def)
  next
    case False
    with eq m n hd show ?thesis by (simp add: os_path_join_def split: if_splits)
  qed
  then show "m = n" by (rule alt_slug_inj)
qed

lemma finite_taken:
  "finite {k. os_path_exists fs (os_path_join parent (alt_slug slug k))}"
proof -
  let ?f = "\<lambda>k. os_path_join parent (alt_slug slug k)"
  have "inj ?f" by (rule injI) (rule join_alt_slug_inj)
  moreover have "finite (dom (map_of (nodes fs)))" by (rule finite_dom_map_of)
  ultimately have "finite (?f -` dom (map_of (nodes fs)))"
    by (simp add: finite_vimageI)
  moreover have "{k. os_path_exists fs (?f k)} = ?f -` dom (map_of (nodes fs))"
    by (auto simp: os_path_exists_def lookup_def)
  ultimately show ?thesis by simp
qed

termination probe_directory
proof (relation "measure (\<lambda>(fs, parent, slug, counter, new_directory).
         card {k. counter \<le> k \<and> os_path_exists fs (os_path_join parent (alt_slug slug k))}
         + (if os_path_exists fs new_directory then 1 else 0))")
  show "wf (measure (\<lambda>(fs, parent, slug, counter, new_directory).
         card {k. counter \<le> k \<and> os_path_exists fs (os_path_join parent (alt_slug slug k))}
         + (if os_path_exists fs new_directory then 1 else 0)))" by simp
next
  fix fs :: filesystem and parent slug :: string and counter :: nat and new_directory :: string
  assume ex: "os_path_exists fs new_directory"
  let ?P = "\<lambda>k. os_path_exists fs (os_path_join parent (alt_slug slug k))"
  have fin: "finite {k. counter \<le> k \<and> ?P k}"
    by (rule finite_subset [OF _ finite_taken [of fs parent slug]]) auto
  have split: "{k. counter \<le> k \<and> ?P k}
      = {k. counter + 1 \<le> k \<and> ?P k} \<union> (if ?P counter then {counter} else {})"
    by (auto simp: Suc_le_eq le_less)
  have "card {k. counter \<le> k \<and> ?P k}
      = card {k. counter + 1 \<le> k \<and> ?P k} + (if ?P counter then 1 else 0)"
  proof (cases "?P counter")
    case True
    have "card (insert counter {k. counter + 1 \<le> k \<and> ?P k})
        = Suc (card {k. counter + 1 \<le> k \<and> ?P k})"
      by (rule card_insert_disjoint)
         (auto intro: finite_subset [OF _ finite_taken [of fs parent slug]])
    with True split show ?thesis by simp
  next
    case False
    with split show ?thesis by simp
  qed
  with ex show "((fs, parent, slug, counter + 1, os_path_join parent (alt_slug slug counter)),
         (fs, parent, slug, counter, new_directory))
        \<in> measure (\<lambda>(fs, parent, slug, counter, new_directory).
         card {k. counter \<le> k \<and> os_path_exists fs (os_path_join parent (alt_slug slug k))}
         + (if os_path_exists fs new_directory then 1 else 0))"
    by simp
qed

declare probe_directory.simps [simp del]

subsection \<open>Paths\<close>

lemma takeWhile_all_append:
  "\<forall>x\<in>set xs. P x \<Longrightarrow> takeWhile P (xs @ ys) = xs @ takeWhile P ys"
  by (induction xs) simp_all

lemma basename_rev:
  assumes "CHR ''/'' \<notin> set b" and "a = [] \<or> hd a = CHR ''/''"
  shows "takeWhile (\<lambda>c. c \<noteq> CHR ''/'') (rev b @ a) = rev b"
proof -
  have "\<forall>x\<in>set (rev b). x \<noteq> CHR ''/''" using assms(1) by auto
  then have "takeWhile (\<lambda>c. c \<noteq> CHR ''/'') (rev b @ a)
      = rev b @ takeWhile (\<lambda>c. c \<noteq> CHR ''/'') a"
    by (rule takeWhile_all_append)
  moreover have "takeWhile (\<lambda>c. c \<noteq> CHR ''/'') a = []"
    using assms(2) by (cases a) auto
  ultimately show ?thesis by simp
qed

lemma os_path_join_plain:
  assumes "CHR ''/'' \<notin> set b"
  shows "os_path_join a b = (if a = [] \<or> last a = CHR ''/'' then a @ b else a @ ''/'' @ b)"
proof -
  have "b = [] \<or> hd b \<noteq> CHR ''/''" using assms by (cases b) auto
  then show ?thesis by (auto simp: os_path_join_def)
qed

lemma os_path_basename_join:
  assumes "CHR ''/'' \<notin> set b"
  shows "os_path_basename (os_path_join a b) = b"
proof (cases "a = [] \<or> last a = CHR ''/''")
  case True
  then have "rev a = [] \<or> hd (rev a) = CHR ''/''"
    by (cases a rule: rev_cases) auto
  then have "takeWhile (\<lambda>c. c \<noteq> CHR ''/'') (rev b @ rev a) = rev b"
    by (rule basename_rev [OF assms])
  with True show ?thesis
    by (simp add: os_path_basename_def os_path_join_plain [OF assms])
next
  case False
  have "takeWhile (\<lambda>c. c \<noteq> CHR ''/'') (rev b @ (CHR ''/'' # rev a)) = rev b"
    by (rule basename_rev [OF assms]) simp
  with False show ?thesis
    by (simp add: os_path_basename_def os_path_join_plain [OF assms])
qed

subsection \<open>File system\<close>

lemma lookup_update:
  "lookup (fs\<lparr>nodes := AList.update p n (nodes fs)\<rparr>) q = (if q = p then Some n else lookup fs q)"
  by (simp add: lookup_def update_conv)

lemma os_makedirs_Inr:
  "os_makedirs p fs = Inr fs' \<Longrightarrow>
     lookup fs' p = Some Dir \<and> denied fs' = denied fs \<and>
     (\<forall>q. q \<noteq> p \<longrightarrow> lookup fs' q = lookup fs q) \<and>
     (lookup fs p = Some Dir \<longrightarrow> fs' = fs)"
  by (auto simp: os_makedirs_def lookup_update split: option.splits node.splits if_splits)

lemma os_makedirs_present: "lookup fs p = Some Dir \<Longrightarrow> os_makedirs p fs = Inr fs"
  by (simp add: os_makedirs_def)

lemma os_makedirs_keeps:
  "os_makedirs p fs = Inr fs' \<Longrightarrow> lookup fs q = Some n \<Longrightarrow> lookup fs' q = Some n"
  by (auto simp: os_makedirs_def lookup_update split: option.splits node.splits if_splits)


section \<open>Loading bundles and projects\<close>


lemma load_project_unbound_local:
  "\<not> os_path_exists fs d \<Longrightarrow> load_project d mgr fs = (Raises (UnboundLocalError ''project''), mgr, fs)"
  by (simp add: load_project_def read_local_def)

text \<open>
  Claim C1 says that \<^verbatim>\<open>load_project\<close> on a directory that does not exist returns a
  failure, a flag with a (category, detail) message, and raises nothing. The code builds
  that message from \<^verbatim>\<open>project.directory\<close> before \<^verbatim>\<open>project\<close> is assigned: the call
  leaves through \<^verbatim>\<open>UnboundLocalError\<close> and returns nothing, as here for a directory
  that is not in the file system.
\<close>

theorem load_project_missing_directory_raises:
  "load_project ''/home/op/projects/missing''
     \<lparr>base_projects_folder = ''/home/op/projects'', copista_folder = ''/home/op/.copista'',
      current_project = None\<rparr>
     \<lparr>nodes = [(''/home/op/projects'', Dir)], denied = []\<rparr>
   = (Raises (UnboundLocalError ''project''),
      \<lparr>base_projects_folder = ''/home/op/projects'', copista_folder = ''/home/op/.copista'',
       current_project = None\<rparr>,
      \<lparr>nodes = [(''/home/op/projects'', Dir)], denied = []\<rparr>)"
  by (rule load_project_unbound_local) (simp add: os_path_exists_def lookup_def)

lemma load_bundles_drops_warning:
  "read_json (files_bundles p) fs = Inr (JObj kvs) \<Longrightarrow>
   load_bundles p fs
     = ((True, None), p\<lparr>bundles := (case map_of kvs ''bundles'' of Some v \<Rightarrow> v | None \<Rightarrow> JList [])\<rparr>)"
  by (simp add: load_bundles_def load_from_json_def dict_get_def split: option.splits)

text \<open>
  Claim C2 says that \<^verbatim>\<open>load_bundles\<close> succeeds with a warning message when the key
  \<^verbatim>\<open>bundles\<close> is absent or empty. On a \<^verbatim>\<open>bundles.json\<close> holding the empty object,
  \<^verbatim>\<open>load_from_json\<close> does build the warning, and \<^verbatim>\<open>load_bundles\<close> returns
  \<^verbatim>\<open>(True, None)\<close> without it; the bundle list becomes the empty list.
\<close>

theorem load_bundles_absent_key_no_warning:
  "load_from_json (files_bundles (Project_init ''/home/op/projects/book'')) ''bundles''
     \<lparr>nodes = [(''/home/op/projects/book'', Dir),
               (''/home/op/projects/book/bundles.json'', File (JsonText (JObj [])))],
      denied = []\<rparr>
   = (True, Some (''Advertencia'', ''No se encontro {item_name} en el archivo JSON''), JList [])
   \<and> load_bundles (Project_init ''/home/op/projects/book'')
     \<lparr>nodes = [(''/home/op/projects/book'', Dir),
               (''/home/op/projects/book/bundles.json'', File (JsonText (JObj [])))],
      denied = []\<rparr>
   = ((True, None), (Project_init ''/home/op/projects/book'')\<lparr>bundles := JList []\<rparr>)"
  by (simp add: load_bundles_def load_from_json_def dict_get_def read_json_def lookup_def
      files_bundles_def Project_init_def os_path_join_def)






section \<open>Subfolders\<close>

lemma ensure_subfolders_loop_keeps:
  "ensure_subfolders_loop ss fs = (r, fs') \<Longrightarrow> lookup fs q = Some Dir \<Longrightarrow> lookup fs' q = Some Dir"
proof (induction ss arbitrary: fs)
  case Nil
  then show ?case by simp
next
  case (Cons s rest)
  show ?case
  proof (cases "os_makedirs s fs")
    case (Inl e)
    with Cons.prems show ?thesis by simp
  next
    case (Inr fs1)
    with Cons.prems have "ensure_subfolders_loop rest fs1 = (r, fs')" by simp
    moreover from Inr Cons.prems(2) have "lookup fs1 q = Some Dir" by (rule os_makedirs_keeps)
    ultimately show ?thesis by (rule Cons.IH)
  qed
qed

lemma ensure_subfolders_loop_idem:
  "ensure_subfolders_loop ss (snd (ensure_subfolders_loop ss fs)) = ensure_subfolders_loop ss fs"
proof (induction ss arbitrary: fs)
  case Nil
  show ?case by simp
next
  case (Cons s rest)
  show ?case
  proof (cases "os_makedirs s fs")
    case (Inl e)
    then show ?thesis by simp
  next
    case (Inr fs1)
    obtain r fs2 where rest: "ensure_subfolders_loop rest fs1 = (r, fs2)"
      by (cases "ensure_subfolders_loop rest fs1")
    from Inr have "lookup fs1 s = Some Dir" by (simp add: os_makedirs_Inr)
    with rest have "lookup fs2 s = Some Dir" by (rule ensure_subfolders_loop_keeps)
    then have "os_makedirs s fs2 = Inr fs2" by (rule os_makedirs_present)
    moreover from Cons.IH [of fs1] rest have "ensure_subfolders_loop rest fs2 = (r, fs2)" by simp
    ultimately show ?thesis using Inr rest by simp
  qed
qed

lemma ensure_subfolders_loop_made:
  "ensure_subfolders_loop ss fs = ((True, m), fs') \<Longrightarrow> \<forall>s\<in>set ss. lookup fs' s = Some Dir"
proof (induction ss arbitrary: fs)
  case Nil
  show ?case by simp
next
  case (Cons s rest)
  from Cons.prems obtain fs1 where mk: "os_makedirs s fs = Inr fs1"
    and rest: "ensure_subfolders_loop rest fs1 = ((True, m), fs')"
    by (auto split: sum.splits)
  from mk have "lookup fs1 s = Some Dir" by (simp add: os_makedirs_Inr)
  with rest have "lookup fs' s = Some Dir" by (rule ensure_subfolders_loop_keeps)
  with Cons.IH [OF rest] show ?case by simp
qed

lemma ensure_subfolders_loop_result:
  "ensure_subfolders_loop ss fs = ((res, m), fs') \<Longrightarrow> (res \<longrightarrow> m = None) \<and> (\<not> res \<longrightarrow> m \<noteq> None)"
  by (induction ss arbitrary: fs) (auto split: sum.splits)

text \<open>
  Claim C9: \<^verbatim>\<open>ensure_subfolders\<close> is idempotent. A second call in a row returns what
  the first returned and leaves the file system as the first left it; when the first
  call succeeded, the second succeeds with no error and changes nothing, and both
  subfolders are there as directories.
\<close>

theorem ensure_subfolders_idempotent:
  "ensure_subfolders p (snd (ensure_subfolders p fs)) = ensure_subfolders p fs
   \<and> (fst (ensure_subfolders p fs) = (True, None) \<longrightarrow>
        ensure_subfolders p (snd (ensure_subfolders p fs))
          = ((True, None), snd (ensure_subfolders p fs))
        \<and> (\<forall>s\<in>set (subfolders p). lookup (snd (ensure_subfolders p fs)) s = Some Dir))"
proof -
  have idem: "ensure_subfolders p (snd (ensure_subfolders p fs)) = ensure_subfolders p fs"
    unfolding ensure_subfolders_def by (rule ensure_subfolders_loop_idem)
  have made: "\<forall>s\<in>set (subfolders p). lookup (snd (ensure_subfolders p fs)) s = Some Dir"
    if "fst (ensure_subfolders p fs) = (True, None)"
  proof -
    from that have "ensure_subfolders_loop (subfolders p) fs
        = ((True, None), snd (ensure_subfolders p fs))"
      by (simp add: ensure_subfolders_def prod_eq_iff)
    then show ?thesis by (rule ensure_subfolders_loop_made)
  qed
  show ?thesis using idem made by (auto simp: prod_eq_iff)
qed

theorem ensure_subfolders_idempotent_witness:
  "ensure_subfolders (Project_init ''/p/book'') \<lparr>nodes = [(''/p/book'', Dir)], denied = []\<rparr>
     = ((True, None),
        \<lparr>nodes = [(''/p/book'', Dir), (''/p/book/.cache'', Dir), (''/p/book/.capture'', Dir)],
         denied = []\<rparr>)
   \<and> ensure_subfolders (Project_init ''/p/book'')
        \<lparr>nodes = [(''/p/book'', Dir), (''/p/book/.cache'', Dir), (''/p/book/.capture'', Dir)],
         denied = []\<rparr>
     = ((True, None),
        \<lparr>nodes = [(''/p/book'', Dir), (''/p/book/.cache'', Dir), (''/p/book/.capture'', Dir)],
         denied = []\<rparr>)"
proof -
  let ?p = "Project_init ''/p/book''"
  let ?fs = "\<lparr>nodes = [(''/p/book'', Dir)], denied = []\<rparr>"
  have first: "ensure_subfolders ?p ?fs
     = ((True, None),
        \<lparr>nodes = [(''/p/book'', Dir), (''/p/book/.cache'', Dir), (''/p/book/.capture'', Dir)],
         denied = []\<rparr>)"
    by (simp add: ensure_subfolders_def subfolders_def Project_init_def os_path_join_def
        os_makedirs_def lookup_def)
  then have ok: "fst (ensure_subfolders ?p ?fs) = (True, None)" by simp
  from ensure_subfolders_idempotent [of ?p ?fs] ok first show ?thesis by simp
qed

section \<open>Creating a project\<close>

lemma save_to_json_result:
  "save_to_json file data fs = ((res, m), fs') \<Longrightarrow>
     (res \<longrightarrow> m = None) \<and> (\<not> res \<longrightarrow> m \<noteq> None \<and> fs' = fs)"
  by (auto simp: save_to_json_def split: sum.splits)

lemma save_bundles_result:
  "save_bundles p fs = ((res, m), fs') \<Longrightarrow>
     (res \<longrightarrow> m = None) \<and> (\<not> res \<longrightarrow> m \<noteq> None \<and> fs' = fs)"
  by (auto simp: save_bundles_def split: prod.splits if_splits dest: save_to_json_result)

lemma save_project_metadata_result:
  "save_project_metadata p fs = ((res, m), fs') \<Longrightarrow>
     (res \<longrightarrow> m = None) \<and> (\<not> res \<longrightarrow> m \<noteq> None \<and> fs' = fs)"
  by (auto simp: save_project_metadata_def split: prod.splits if_splits dest: save_to_json_result)

lemma ensure_subfolders_result:
  "ensure_subfolders p fs = ((res, m), fs') \<Longrightarrow> (res \<longrightarrow> m = None) \<and> (\<not> res \<longrightarrow> m \<noteq> None)"
  unfolding ensure_subfolders_def by (rule ensure_subfolders_loop_result)

lemma create_project_steps:
  assumes "t \<noteq> []"
  shows "create_project slugify (Some t) parent_directory mgr fs =
     (let new_project = new_project_for slugify t parent_directory mgr fs
      in (case os_makedirs (directory new_project) fs of
            Inl e \<Rightarrow>
              (Pair False
                 (Some (''Error'',
                    ''Error al crear '' @ directory new_project @ '': '' @ str_exn e)),
               mgr, fs)
          | Inr fs1 \<Rightarrow>
              (case ensure_subfolders new_project fs1 of
                 ((res, message), fs2) \<Rightarrow>
                   if \<not> res then (Pair False message, mgr, fs2)
                   else
                     (case save_bundles new_project fs2 of
                        ((res, message), fs3) \<Rightarrow>
                          if \<not> res then (Pair False message, mgr, fs3)
                          else
                            (case save_project_metadata new_project fs3 of
                               ((res, message), fs4) \<Rightarrow>
                                 if \<not> res then (Pair False message, mgr, fs4)
                                 else
                                   (Pair True None,
                                    mgr\<lparr>current_project := Some new_project\<rparr>,
                                    fs4))))))"
  using assms by (simp add: create_project_def new_project_for_def Let_def)

text \<open>
  Claim C3 says that \<^verbatim>\<open>create_project\<close> with an empty title returns a failure that
  carries a (category, detail) pair and creates no directory. The file system is indeed
  left as it was, but what comes back is the bare object \<^verbatim>\<open>False\<close>, with no message,
  for the empty title as for the default \<^verbatim>\<open>None\<close>.
\<close>

theorem create_project_empty_title_bare_false:
  "create_project slugify (Some []) parent_directory mgr fs = (Bare False, mgr, fs)
   \<and> create_project slugify None parent_directory mgr fs = (Bare False, mgr, fs)"
  by (simp add: create_project_def)

text \<open>
  Claim C10: a call of \<^verbatim>\<open>create_project\<close> that fails, whether on the title, on the
  directory, on a subfolder or on one of the two saves, leaves the manager as it was,
  its current project included. The current project is assigned only in the run where
  the directory, the subfolders and both files have been written.
\<close>

theorem create_project_failure_keeps_current_project:
  assumes run: "create_project slugify title parent_directory mgr fs = (r, mgr', fs')"
  shows "(r = Pair True None \<or> r = Bare False \<or> (\<exists>m. r = Pair False (Some m)))
    \<and> (r \<noteq> Pair True None \<longrightarrow> mgr' = mgr)
    \<and> (r = Pair True None \<longrightarrow>
         (\<exists>p fs1 fs2 fs3.
            os_makedirs (directory p) fs = Inr fs1 \<and>
            ensure_subfolders p fs1 = ((True, None), fs2) \<and>
            save_bundles p fs2 = ((True, None), fs3) \<and>
            save_project_metadata p fs3 = ((True, None), fs') \<and>
            mgr' = mgr\<lparr>current_project := Some p\<rparr>))"
proof (cases "title = None \<or> title = Some []")
  case True
  with run show ?thesis by (auto simp: create_project_def)
next
  case False
  then obtain t where t: "title = Some t" "t \<noteq> []" by auto
  define p where "p = new_project_for slugify t parent_directory mgr fs"
  note steps = create_project_steps [OF t(2), of slugify parent_directory mgr fs, folded p_def]
  show ?thesis
  proof (cases "os_makedirs (directory p) fs")
    case (Inl e)
    with run t steps show ?thesis by (auto simp: Let_def)
  next
    case mk: (Inr fs1)
    obtain res1 m1 fs2 where e1: "ensure_subfolders p fs1 = ((res1, m1), fs2)"
      by (metis prod.exhaust)
    show ?thesis
    proof (cases res1)
      case False
      with ensure_subfolders_result [OF e1] obtain m where "m1 = Some m" by auto
      with run t steps mk e1 False show ?thesis by (auto simp: Let_def)
    next
      case r1: True
      with ensure_subfolders_result [OF e1] have m1: "m1 = None" by simp
      obtain res2 m2 fs3 where e2: "save_bundles p fs2 = ((res2, m2), fs3)"
        by (metis prod.exhaust)
      show ?thesis
      proof (cases res2)
        case False
        with save_bundles_result [OF e2] obtain m where "m2 = Some m" by auto
        with run t steps mk e1 r1 e2 False show ?thesis by (auto simp: Let_def)
      next
        case r2: True
        with save_bundles_result [OF e2] have m2: "m2 = None" by simp
        obtain res3 m3 fs4 where e3: "save_project_metadata p fs3 = ((res3, m3), fs4)"
          by (metis prod.exhaust)
        show ?thesis
        proof (cases res3)
          case False
          with save_project_metadata_result [OF e3] obtain m where "m3 = Some m" by auto
          with run t steps mk e1 r1 e2 r2 e3 False show ?thesis by (auto simp: Let_def)
        next
          case r3: True
          with save_project_metadata_result [OF e3] have m3: "m3 = None" by simp
          from run t steps mk e1 r1 e2 r2 e3 r3
          have res: "r = Pair True None" "mgr' = mgr\<lparr>current_project := Some p\<rparr>" "fs' = fs4"
            by (simp_all add: Let_def)
          have "os_makedirs (directory p) fs = Inr fs1 \<and>
            ensure_subfolders p fs1 = ((True, None), fs2) \<and>
            save_bundles p fs2 = ((True, None), fs3) \<and>
            save_project_metadata p fs3 = ((True, None), fs') \<and>
            mgr' = mgr\<lparr>current_project := Some p\<rparr>"
            using mk e1 r1 m1 e2 r2 m2 e3 r3 m3 res by simp
          then show ?thesis using res(1) by blast
        qed
      qed
    qed
  qed
qed

theorem create_project_failure_keeps_current_project_witness:
  "create_project slugify_ascii (Some ''My Test Project'') None
     \<lparr>base_projects_folder = ''/home/op/projects'', copista_folder = ''/home/op/.copista'',
      current_project = Some (Project_init ''/home/op/projects/old'')\<rparr>
     \<lparr>nodes = [(''/home/op/projects'', Dir)],
      denied = [''/home/op/projects/my-test-project/bundles.json'']\<rparr>
   = (Pair False (Some (''Error'',
        ''Error actualizando /home/op/projects/my-test-project/bundles.json: ''
          @ str_exn (PermissionError ''/home/op/projects/my-test-project/bundles.json''))),
      \<lparr>base_projects_folder = ''/home/op/projects'', copista_folder = ''/home/op/.copista'',
       current_project = Some (Project_init ''/home/op/projects/old'')\<rparr>,
      \<lparr>nodes = [(''/home/op/projects'', Dir), (''/home/op/projects/my-test-project'', Dir),
                (''/home/op/projects/my-test-project/.cache'', Dir),
                (''/home/op/projects/my-test-project/.capture'', Dir)],
       denied = [''/home/op/projects/my-test-project/bundles.json'']\<rparr>)"
proof -
  let ?mgr = "\<lparr>base_projects_folder = ''/home/op/projects'', copista_folder = ''/home/op/.copista'',
      current_project = Some (Project_init ''/home/op/projects/old'')\<rparr>"
  let ?fs = "\<lparr>nodes = [(''/home/op/projects'', Dir)],
      denied = [''/home/op/projects/my-test-project/bundles.json'']\<rparr>"
  let ?fs' = "\<lparr>nodes = [(''/home/op/projects'', Dir), (''/home/op/projects/my-test-project'', Dir),
                (''/home/op/projects/my-test-project/.cache'', Dir),
                (''/home/op/projects/my-test-project/.capture'', Dir)],
       denied = [''/home/op/projects/my-test-project/bundles.json'']\<rparr>"
  obtain r mgr' fs' where
    run: "create_project slugify_ascii (Some ''My Test Project'') None ?mgr ?fs = (r, mgr', fs')"
    by (metis prod.exhaust)
  have r: "fst (create_project slugify_ascii (Some ''My Test Project'') None ?mgr ?fs)
    = Pair False (Some (''Error'',
        ''Error actualizando /home/op/projects/my-test-project/bundles.json: ''
          @ str_exn (PermissionError ''/home/op/projects/my-test-project/bundles.json'')))"
    by code_simp
  have f: "snd (snd (create_project slugify_ascii (Some ''My Test Project'') None ?mgr ?fs)) = ?fs'"
    by code_simp
  from create_project_failure_keeps_current_project [OF run] r run have "mgr' = ?mgr" by simp
  with run r f show ?thesis by (simp add: prod_eq_iff)
qed

subsection \<open>What the probe returns\<close>



subsection \<open>Nodes stay\<close>








lemma parent_for_current_project [simp]:
  "parent_for parent_directory (mgr\<lparr>current_project := c\<rparr>) = parent_for parent_directory mgr"
  by (simp add: parent_for_def split: option.splits)



subsection \<open>The scenario of a first project\<close>

lemma os_path_join_sep:
  "\<exists>sep. \<forall>b. CHR ''/'' \<notin> set b \<longrightarrow> os_path_join a b = a @ sep @ b"
proof (cases "a = [] \<or> last a = CHR ''/''")
  case True
  then have "\<forall>b. CHR ''/'' \<notin> set b \<longrightarrow> os_path_join a b = a @ [] @ b"
    by (simp add: os_path_join_plain)
  then show ?thesis by blast
next
  case False
  then have "\<forall>b. CHR ''/'' \<notin> set b \<longrightarrow> os_path_join a b = a @ ''/'' @ b"
    by (simp add: os_path_join_plain)
  then show ?thesis by blast
qed

text \<open>
  Claim C8: with the title "My Test Project", a slug function that gives
  \<^verbatim>\<open>my-test-project\<close> for it, nothing at or below the target path and no refusal of the
  operating system there, \<^verbatim>\<open>create_project\<close> succeeds; the last component of the
  directory is \<^verbatim>\<open>my-test-project\<close>, \<^verbatim>\<open>project_metadata.json\<close> holds the title with a
  \<^verbatim>\<open>null\<close> description under the key \<^verbatim>\<open>project_metadata\<close>, and \<^verbatim>\<open>bundles.json\<close> holds
  an empty list under the key \<^verbatim>\<open>bundles\<close>.
\<close>

theorem create_project_my_test_project:
  assumes slug: "slugify ''My Test Project'' = ''my-test-project''"
    and free: "\<forall>q. prefix (os_path_join (parent_for parent_directory mgr) ''my-test-project'') q
                 \<longrightarrow> lookup fs q = None \<and> q \<notin> set (denied fs)"
  shows "let target = os_path_join (parent_for parent_directory mgr) ''my-test-project'';
             metadata = JObj [(''title'', JStr ''My Test Project''), (''description'', JNull)]
         in os_path_basename target = ''my-test-project''
          \<and> (\<exists>fs'. create_project slugify (Some ''My Test Project'') parent_directory mgr fs
                 = (Pair True None,
                    mgr\<lparr>current_project :=
                          Some \<lparr>directory = target, project_metadata = metadata,
                                bundles = JList []\<rparr>\<rparr>,
                    fs')
               \<and> lookup fs' target = Some Dir
               \<and> lookup fs' (os_path_join target ''project_metadata.json'')
                   = Some (File (JsonText (JObj [(''project_metadata'', metadata)])))
               \<and> lookup fs' (os_path_join target ''bundles.json'')
                   = Some (File (JsonText (JObj [(''bundles'', JList [])]))))"
proof -
  define T where "T = os_path_join (parent_for parent_directory mgr) ''my-test-project''"
  obtain sep where sep: "\<And>b. CHR ''/'' \<notin> set b \<Longrightarrow> os_path_join T b = T @ sep @ b"
    using os_path_join_sep [of T] by blast
  have cache: "os_path_join T ''.cache'' = T @ sep @ ''.cache''"
    and capture: "os_path_join T ''.capture'' = T @ sep @ ''.capture''"
    and bfile: "os_path_join T ''bundles.json'' = T @ sep @ ''bundles.json''"
    and mfile: "os_path_join T ''project_metadata.json'' = T @ sep @ ''project_metadata.json''"
    by (simp_all add: sep)
  have below: "map_of (nodes fs) (T @ x) = None \<and> T @ x \<notin> set (denied fs)" for x
    using free [rule_format, of "T @ x"] by (simp add: T_def lookup_def)
  from below [of "[]"] have top: "map_of (nodes fs) T = None" "T \<notin> set (denied fs)" by simp_all
  have base: "os_path_basename T = ''my-test-project''"
    unfolding T_def by (rule os_path_basename_join) simp
  have probe: "probe_directory fs (parent_for parent_directory mgr) ''my-test-project'' 1 T = T"
    using top by (subst probe_directory.simps) (simp add: os_path_exists_def lookup_def)
  have p: "new_project_for slugify ''My Test Project'' parent_directory mgr fs
      = \<lparr>directory = T,
         project_metadata = JObj [(''title'', JStr ''My Test Project''), (''description'', JNull)],
         bundles = JList []\<rparr>"
    using probe by (simp add: new_project_for_def slug Let_def Project_init_def T_def [symmetric])
  define fs' where "fs' = fs\<lparr>nodes :=
      AList.update (T @ sep @ ''project_metadata.json'')
        (File (JsonText (JObj [(''project_metadata'',
           JObj [(''title'', JStr ''My Test Project''), (''description'', JNull)])])))
        (AList.update (T @ sep @ ''bundles.json'') (File (JsonText (JObj [(''bundles'', JList [])])))
           (AList.update (T @ sep @ ''.capture'') Dir
              (AList.update (T @ sep @ ''.cache'') Dir
                 (AList.update T Dir (nodes fs)))))\<rparr>"
  have run: "create_project slugify (Some ''My Test Project'') parent_directory mgr fs
      = (Pair True None,
         mgr\<lparr>current_project :=
               Some \<lparr>directory = T,
                 project_metadata = JObj [(''title'', JStr ''My Test Project''), (''description'', JNull)],
                 bundles = JList []\<rparr>\<rparr>,
         fs')"
    using top below [of "sep @ ''.cache''"] below [of "sep @ ''.capture''"]
      below [of "sep @ ''bundles.json''"] below [of "sep @ ''project_metadata.json''"]
    by (simp add: create_project_steps p Let_def os_makedirs_def ensure_subfolders_def
        subfolders_def save_bundles_def save_project_metadata_def save_to_json_def write_json_def
        files_bundles_def files_project_metadata_def lookup_def update_conv'
        cache capture bfile mfile fs'_def)
  have look: "lookup fs' T = Some Dir"
    "lookup fs' (os_path_join T ''project_metadata.json'')
       = Some (File (JsonText (JObj [(''project_metadata'',
           JObj [(''title'', JStr ''My Test Project''), (''description'', JNull)])])))"
    "lookup fs' (os_path_join T ''bundles.json'')
       = Some (File (JsonText (JObj [(''bundles'', JList [])])))"
    by (simp_all add: fs'_def lookup_def update_conv' bfile mfile)
  from base run look show ?thesis
    unfolding Let_def T_def [symmetric] by blast
qed

theorem create_project_my_test_project_witness:
  "slugify_ascii ''My Test Project'' = ''my-test-project''
   \<and> lookup \<lparr>nodes = [(''/home/op/projects'', Dir)], denied = []\<rparr>
         ''/home/op/projects/my-test-project'' = None
   \<and> os_path_basename ''/home/op/projects/my-test-project'' = ''my-test-project''
   \<and> (\<exists>fs'. create_project slugify_ascii (Some ''My Test Project'') None
          \<lparr>base_projects_folder = ''/home/op/projects'', copista_folder = ''/home/op/.copista'',
           current_project = None\<rparr>
          \<lparr>nodes = [(''/home/op/projects'', Dir)], denied = []\<rparr>
        = (Pair True None,
           \<lparr>base_projects_folder = ''/home/op/projects'', copista_folder = ''/home/op/.copista'',
            current_project = Some \<lparr>directory = ''/home/op/projects/my-test-project'',
              project_metadata = JObj [(''title'', JStr ''My Test Project''), (''description'', JNull)],
              bundles = JList []\<rparr>\<rparr>,
           fs')
      \<and> lookup fs' ''/home/op/projects/my-test-project'' = Some Dir
      \<and> lookup fs' ''/home/op/projects/my-test-project/project_metadata.json''
          = Some (File (JsonText (JObj [(''project_metadata'',
              JObj [(''title'', JStr ''My Test Project''), (''description'', JNull)])])))
      \<and> lookup fs' ''/home/op/projects/my-test-project/bundles.json''
          = Some (File (JsonText (JObj [(''bundles'', JList [])]))))"
proof -
  let ?M = "\<lparr>base_projects_folder = ''/home/op/projects'', copista_folder = ''/home/op/.copista'',
         current_project = None\<rparr>"
  let ?F = "\<lparr>nodes = [(''/home/op/projects'', Dir)], denied = []\<rparr>"
  have slug: "slugify_ascii ''My Test Project'' = ''my-test-project''" by code_simp
  have target: "os_path_join (parent_for None ?M) ''my-test-project''
      = ''/home/op/projects/my-test-project''"
    by (simp add: parent_for_def os_path_join_def)
  have free: "\<forall>q. prefix ''/home/op/projects/my-test-project'' q
      \<longrightarrow> lookup ?F q = None \<and> q \<notin> set (denied ?F)"
    by (auto simp: lookup_def)
  then have free': "\<forall>q. prefix (os_path_join (parent_for None ?M) ''my-test-project'') q
      \<longrightarrow> lookup ?F q = None \<and> q \<notin> set (denied ?F)"
    by (simp only: target)
  have joins: "os_path_join ''/home/op/projects/my-test-project'' ''project_metadata.json''
        = ''/home/op/projects/my-test-project/project_metadata.json''"
      "os_path_join ''/home/op/projects/my-test-project'' ''bundles.json''
        = ''/home/op/projects/my-test-project/bundles.json''"
    by (simp_all add: os_path_join_def)
  from create_project_my_test_project
         [where slugify = slugify_ascii and parent_directory = None and mgr = ?M and fs = ?F,
          OF slug free']
       slug
  show ?thesis
    unfolding Let_def target joins by (simp add: lookup_def)
qed

section \<open>Rolling back an insert\<close>

lemma list_pop_list_insert:
  assumes "0 \<le> i" and "i \<le> int (length xs)"
  shows "list_pop (list_insert xs i x) i = Inr xs"
proof -
  have ins: "list_insert xs i x = take (nat i) xs @ [x] @ drop (nat i) xs"
    using assms by (simp add: list_insert_def Let_def min_def)
  have len: "length (take (nat i) xs) = nat i" using assms by simp
  have "take (nat i) (take (nat i) xs @ [x] @ drop (nat i) xs) = take (nat i) xs"
    using len by simp
  moreover have "drop (nat i + 1) (take (nat i) xs @ [x] @ drop (nat i) xs) = drop (nat i) xs"
    using len by simp
  ultimately show ?thesis
    using assms unfolding ins by (simp add: list_pop_def Let_def)
qed

lemma add_bundle_from_images_rollback_in_range:
  assumes "current_project dlg = Some p" and "bundles p = JList bs"
    and "- 1 \<le> current_bundle_index dlg" and "current_bundle_index dlg < int (length bs)"
    and "files_bundles p \<in> set (denied fs)"
  shows "\<exists>fs'. add_bundle_from_images copied_filenames dlg fs = (False, dlg, fs')"
proof -
  let ?b = "JObj [(''type'', JStr ''generic''), (''images'', JList (map JStr copied_filenames))]"
  let ?i = "current_bundle_index dlg + 1"
  let ?p1 = "p\<lparr>bundles := JList (list_insert bs ?i ?b)\<rparr>"
  have pop: "list_pop (list_insert bs ?i ?b) ?i = Inr bs"
    using assms(3,4) by (intro list_pop_list_insert) simp_all
  have save: "save_bundles ?p1 fs
    = ((False, Some (''Error'', ''Error actualizando '' @ files_bundles p @ '': ''
         @ str_exn (PermissionError (files_bundles p)))), fs)"
    using assms(5) by (simp add: save_bundles_def save_to_json_def write_json_def files_bundles_def)
  have restored: "dlg\<lparr>current_project := Some (?p1\<lparr>bundles := JList bs\<rparr>)\<rparr> = dlg"
    using assms(1,2) by simp
  show ?thesis
    using assms(1,2) pop save restored by (simp add: add_bundle_from_images_def Let_def)
qed

text \<open>
  Claim C5 says that a bundle insert is undone when the save after it fails. The code
  undoes it with \<^verbatim>\<open>pop(insert_position)\<close>, which works when the position is inside the
  list (the lemma above). After \<^verbatim>\<open>load_project\<close> the dialog sets the bundle position to
  0, also for a project with no bundles: then the insert position is 1, \<^verbatim>\<open>insert\<close> puts the
  bundle at the end of the empty list, \<^verbatim>\<open>pop(1)\<close> raises \<^verbatim>\<open>IndexError\<close>, the handler of
  the method returns \<^verbatim>\<open>False\<close>, and the bundle stays in the list in memory although
  \<^verbatim>\<open>bundles.json\<close> was not written.
\<close>

theorem add_bundle_from_images_no_rollback_on_empty_list:
  "add_bundle_from_images [''left.jpg'', ''right.jpg'']
     \<lparr>base_projects_folder = ''/p'', copista_folder = ''/c'',
      current_project = Some \<lparr>directory = ''/p/book'',
        project_metadata = JObj [(''title'', JStr ''Book''), (''description'', JNull)],
        bundles = JList []\<rparr>,
      current_bundle_index = 0\<rparr>
     \<lparr>nodes = [(''/p/book'', Dir),
               (''/p/book/bundles.json'', File (JsonText (JObj [(''bundles'', JList [])]))),
               (''/p/book/left.jpg'', File (NotJson ''image'')),
               (''/p/book/right.jpg'', File (NotJson ''image''))],
      denied = [''/p/book/bundles.json'']\<rparr>
   = (False,
      \<lparr>base_projects_folder = ''/p'', copista_folder = ''/c'',
       current_project = Some \<lparr>directory = ''/p/book'',
         project_metadata = JObj [(''title'', JStr ''Book''), (''description'', JNull)],
         bundles = JList [JObj [(''type'', JStr ''generic''),
                                (''images'', JList [JStr ''left.jpg'', JStr ''right.jpg''])]]\<rparr>,
       current_bundle_index = 0\<rparr>,
      \<lparr>nodes = [(''/p/book'', Dir),
               (''/p/book/bundles.json'', File (JsonText (JObj [(''bundles'', JList [])]))),
               (''/p/book/left.jpg'', File (NotJson ''image'')),
               (''/p/book/right.jpg'', File (NotJson ''image''))],
      denied = [''/p/book/bundles.json'']\<rparr>)"
  by (simp add: add_bundle_from_images_def Let_def list_insert_def list_pop_def
      save_bundles_def save_to_json_def write_json_def files_bundles_def os_path_join_def)

end
